theory Spec2Isabelle
  imports Main "HOL-Library.Word" "HOL-Library.Signed_Division"
begin

section \<open>Go values shared by the adapter and the authentication service\<close>

type_synonym byte = "8 word"

text \<open>
  A Go call either returns, returns a non-nil \<open>error\<close> (its message), or panics.
  \<open>Err\<close> carries the text of \<open>err.Error()\<close>; \<open>Panic\<close> is a run-time panic, which
  unwinds through every caller that does not recover.
\<close>

datatype error = Err string | Panic string

text \<open>
  \<open>errors.Wrap(err, msg)\<close> and \<open>fmt.Errorf("msg: %w", err)\<close> both produce the
  message \<open>msg: <err>\<close>. A panic in the callee never reaches the wrapping statement.
\<close>

fun Wrap :: "string \<Rightarrow> error \<Rightarrow> error" where
  "Wrap msg (Err s) = Err (msg @ '': '' @ s)"
| "Wrap msg (Panic p) = Panic p"

text \<open>
  The environment the code reads: the operating system's entropy source behind
  \<open>crypto/rand\<close> (an unbounded sequence of bytes and the number already consumed)
  and the wall clock behind \<open>time.Now().Unix()\<close>.
\<close>

record env =
  rand_src :: "nat \<Rightarrow> byte"
  rand_pos :: nat
  now_unix :: int

text \<open>\<open>rand.Read(b)\<close> with \<open>len(b) = n\<close>: the next \<open>n\<close> bytes of the source.\<close>

definition rand_Read :: "nat \<Rightarrow> env \<Rightarrow> byte list \<times> env" where
  "rand_Read n e =
     (map (\<lambda>i. rand_src e (rand_pos e + i)) [0..<n], e\<lparr>rand_pos := rand_pos e + n\<rparr>)"

text \<open>\<open>hex.EncodeToString\<close>: two lower-case digits for each byte.\<close>

definition hextable :: string where
  "hextable = ''0123456789abcdef''"

definition EncodeToString :: "byte list \<Rightarrow> string" where
  "EncodeToString bs =
     concat (map (\<lambda>b. [hextable ! (unat b div 16), hextable ! (unat b mod 16)]) bs)"

text \<open>
  The Go slice expression \<open>s[:hi]\<close> on a string: a run-time panic when \<open>hi\<close> is
  larger than \<open>len(s)\<close>, the first \<open>hi\<close> bytes otherwise.
\<close>

definition slice_to :: "string \<Rightarrow> nat \<Rightarrow> error + string" where
  "slice_to s hi =
     (if length s < hi then Inl (Panic ''slice bounds out of range'') else Inr (take hi s))"

text \<open>\<open>(*big.Int).Int64()\<close>: the low 64 bits, read as a signed integer.\<close>

definition Int64 :: "int \<Rightarrow> int" where
  "Int64 x = sint (word_of_int x :: 64 word)"

text \<open>
  The words of a phrase: the maximal runs of characters other than the space. This is
  the measure in which a mnemonic is said to have 12 or 24 words.
\<close>

fun fields_acc :: "string \<Rightarrow> string \<Rightarrow> string list" where
  "fields_acc cur [] = (if cur = [] then [] else [rev cur])"
| "fields_acc cur (c # cs) =
     (if c = CHR '' '' then (if cur = [] then fields_acc [] cs else rev cur # fields_acc [] cs)
      else fields_acc (c # cur) cs)"

definition word_count :: "string \<Rightarrow> nat" where
  "word_count s = length (fields_acc [] s)"

section \<open>adapters/tfgrid\_adapter.go\<close>

record WalletInfo =
  Address :: string
  PublicKey :: string
  Mnemonic :: string
  Network :: string

record NetworkInfo =
  Name :: string
  Substrate :: string
  Relay :: string
  GraphQL :: string

text \<open>
  The third-party packages the adapter calls are parameters of the model:
  \<open>bip39.IsMnemonicValid\<close>, \<open>bip39.NewEntropy\<close>, \<open>bip39.NewMnemonic\<close> (package
  go-bip39), \<open>signature.KeyringPairFromSecret\<close> (go-substrate-rpc-client) and
  \<open>rand.Int\<close> (crypto/rand over \<open>rand.Reader\<close>). The two that draw entropy thread
  the environment; the others are functions of their arguments.
\<close>

record KeyringPair =
  kp_Address :: string
  kp_PublicKey :: "byte list"

record lib =
  bip39_IsMnemonicValid :: "string \<Rightarrow> bool"
  bip39_NewEntropy :: "nat \<Rightarrow> env \<Rightarrow> (error + byte list) \<times> env"
  bip39_NewMnemonic :: "byte list \<Rightarrow> error + string"
  signature_KeyringPairFromSecret :: "string \<Rightarrow> nat \<Rightarrow> error + KeyringPair"
  rand_Int :: "int \<Rightarrow> env \<Rightarrow> (error + int) \<times> env"

subsection \<open>RealTFGridAdapter\<close>

record RealTFGridAdapter =
  network :: string
  networkInfo :: NetworkInfo
  httpClient_Timeout :: nat

text \<open>\<open>NewRealTFGridAdapter\<close>; the timeout is in seconds, the log line is not modelled.\<close>

definition NewRealTFGridAdapter :: "string \<Rightarrow> RealTFGridAdapter" where
  "NewRealTFGridAdapter nw =
     (if nw = ''main'' then
        \<lparr>network = nw,
         networkInfo = \<lparr>Name = ''main'',
                        Substrate = ''wss://tfchain.grid.tf:443'',
                        Relay = ''wss://relay.grid.tf:443'',
                        GraphQL = ''https://graphql.grid.tf/graphql''\<rparr>,
         httpClient_Timeout = 30\<rparr>
      else if nw = ''test'' then
        \<lparr>network = nw,
         networkInfo = \<lparr>Name = ''test'',
                        Substrate = ''wss://tfchain.test.grid.tf:443'',
                        Relay = ''wss://relay.test.grid.tf:443'',
                        GraphQL = ''https://graphql.test.grid.tf/graphql''\<rparr>,
         httpClient_Timeout = 30\<rparr>
      else if nw = ''qa'' then
        \<lparr>network = nw,
         networkInfo = \<lparr>Name = ''qa'',
                        Substrate = ''wss://tfchain.qa.grid.tf:443'',
                        Relay = ''wss://relay.qa.grid.tf:443'',
                        GraphQL = ''https://graphql.qa.grid.tf/graphql''\<rparr>,
         httpClient_Timeout = 30\<rparr>
      else if nw = ''dev'' then
        \<lparr>network = nw,
         networkInfo = \<lparr>Name = ''dev'',
                        Substrate = ''wss://tfchain.dev.grid.tf:443'',
                        Relay = ''wss://relay.dev.grid.tf:443'',
                        GraphQL = ''https://graphql.dev.grid.tf/graphql''\<rparr>,
         httpClient_Timeout = 30\<rparr>
      else
        \<lparr>network = ''test'',
         networkInfo = \<lparr>Name = ''test'',
                        Substrate = ''wss://tfchain.test.grid.tf:443'',
                        Relay = ''wss://relay.test.grid.tf:443'',
                        GraphQL = ''https://graphql.test.grid.tf/graphql''\<rparr>,
         httpClient_Timeout = 30\<rparr>)"

definition GetNetworkInfo :: "RealTFGridAdapter \<Rightarrow> NetworkInfo" where
  "GetNetworkInfo r = networkInfo r"

text \<open>
  \<open>RealTFGridAdapter.DeriveWalletFromMnemonic\<close>. The address format passed to the
  key derivation is the literal 42, whatever the adapter's network.
\<close>

definition DeriveWalletFromMnemonic ::
  "lib \<Rightarrow> RealTFGridAdapter \<Rightarrow> string \<Rightarrow> env \<Rightarrow> (error + WalletInfo) \<times> env" where
  "DeriveWalletFromMnemonic L r mnemonic e =
     (if \<not> bip39_IsMnemonicValid L mnemonic then (Inl (Err ''invalid mnemonic phrase''), e)
      else
        (case signature_KeyringPairFromSecret L mnemonic 42 of
           Inl err \<Rightarrow> (Inl (Wrap ''failed to create key pair from mnemonic'' err), e)
         | Inr keyringPair \<Rightarrow>
             (Inr \<lparr>Address = kp_Address keyringPair,
                   PublicKey = EncodeToString (kp_PublicKey keyringPair),
                   Mnemonic = mnemonic,
                   Network = network r\<rparr>, e)))"

text \<open>\<open>RealTFGridAdapter.GenerateWallet\<close>.\<close>

definition GenerateWallet ::
  "lib \<Rightarrow> RealTFGridAdapter \<Rightarrow> env \<Rightarrow> (error + WalletInfo) \<times> env" where
  "GenerateWallet L r e =
     (case bip39_NewEntropy L 256 e of
        (Inl err, e1) \<Rightarrow> (Inl (Wrap ''failed to generate entropy'' err), e1)
      | (Inr entropy, e1) \<Rightarrow>
          (case bip39_NewMnemonic L entropy of
             Inl err \<Rightarrow> (Inl (Wrap ''failed to generate mnemonic'' err), e1)
           | Inr mnemonic \<Rightarrow> DeriveWalletFromMnemonic L r mnemonic e1))"

text \<open>
  \<open>RealTFGridAdapter.CreateDigitalTwin\<close>: a draw below one million from
  \<open>rand.Int\<close>, with 0 replaced by 1. Neither the wallet address nor any stored
  record is consulted.
\<close>

definition CreateDigitalTwin ::
  "lib \<Rightarrow> RealTFGridAdapter \<Rightarrow> string \<Rightarrow> env \<Rightarrow> (error + int) \<times> env" where
  "CreateDigitalTwin L r walletAddress e =
     (case rand_Int L 1000000 e of
        (Inl err, e1) \<Rightarrow> (Inl (Wrap ''failed to generate twin ID'' err), e1)
      | (Inr twinIDBig, e1) \<Rightarrow>
          (let twinID = Int64 twinIDBig
           in (Inr (if twinID = 0 then 1 else twinID), e1)))"

subsection \<open>MockTFGridAdapter\<close>

record MockTFGridAdapter =
  mock_network :: string
  mock_networkInfo :: NetworkInfo

definition NewMockTFGridAdapter :: "string \<Rightarrow> MockTFGridAdapter" where
  "NewMockTFGridAdapter nw =
     \<lparr>mock_network = nw,
      mock_networkInfo = \<lparr>Name = nw,
                          Substrate = ''wss://tfchain.'' @ nw @ ''.grid.tf:443'',
                          Relay = ''wss://relay.'' @ nw @ ''.grid.tf:443'',
                          GraphQL = ''https://graphql.'' @ nw @ ''.grid.tf/graphql''\<rparr>\<rparr>"

definition Mock_GetNetworkInfo :: "MockTFGridAdapter \<Rightarrow> NetworkInfo" where
  "Mock_GetNetworkInfo m = mock_networkInfo m"

text \<open>
  \<open>MockTFGridAdapter.DeriveWalletFromMnemonic\<close>: sixteen random bytes, their hex
  encoding cut at 47 characters behind a \<open>5\<close>, then thirty-two random bytes for the
  public key. The mnemonic is stored, never inspected.
\<close>

definition Mock_DeriveWalletFromMnemonic ::
  "MockTFGridAdapter \<Rightarrow> string \<Rightarrow> env \<Rightarrow> (error + WalletInfo) \<times> env" where
  "Mock_DeriveWalletFromMnemonic m mnemonic e =
     (case rand_Read 16 e of
        (addressBytes, e1) \<Rightarrow>
          (case slice_to (EncodeToString addressBytes) 47 of
             Inl p \<Rightarrow> (Inl p, e1)
           | Inr hexpart \<Rightarrow>
               (case rand_Read 32 e1 of
                  (pubKeyBytes, e2) \<Rightarrow>
                    (Inr \<lparr>Address = ''5'' @ hexpart,
                          PublicKey = EncodeToString pubKeyBytes,
                          Mnemonic = mnemonic,
                          Network = mock_network m\<rparr>, e2))))"

definition mock_mnemonic :: string where
  "mock_mnemonic =
     ''abandon abandon abandon abandon abandon abandon abandon abandon abandon abandon abandon about''"


text \<open>
  \<open>MockTFGridAdapter.CreateDigitalTwin\<close>: the clock's seconds, remainder by one
  million with Go's \<open>%\<close> (the sign of the dividend).
\<close>

definition Mock_CreateDigitalTwin ::
  "MockTFGridAdapter \<Rightarrow> string \<Rightarrow> env \<Rightarrow> (error + int) \<times> env" where
  "Mock_CreateDigitalTwin m walletAddress e = (Inr (now_unix e smod 1000000), e)"

section \<open>services/auth\_service.go\<close>

subsection \<open>What the service expects of its adapter\<close>

text \<open>
  The service calls \<open>ValidateMnemonic\<close>, \<open>DeriveWalletFromMnemonic\<close>,
  \<open>GenerateWallet\<close> and a two-argument \<open>CreateDigitalTwin\<close> that returns a
  \<open>DigitalTwin\<close> with an \<open>ID\<close> field. The adapter it is given is a parameter of
  \<open>Register\<close>: a record of these four operations, each with the result the call
  site reads. The adapter operations see the environment and never the database.
\<close>

record DigitalTwinMetadata =
  meta_Name :: string
  meta_Email :: string
  meta_Description :: string
  meta_Attributes :: "string \<rightharpoonup> string"

record DigitalTwin =
  ID :: int

record adapter =
  ValidateMnemonic :: "string \<Rightarrow> error option"
  adapter_DeriveWalletFromMnemonic :: "string \<Rightarrow> env \<Rightarrow> (error + WalletInfo) \<times> env"
  adapter_GenerateWallet :: "env \<Rightarrow> (error + WalletInfo) \<times> env"
  adapter_CreateDigitalTwin ::
    "string \<Rightarrow> DigitalTwinMetadata \<Rightarrow> env \<Rightarrow> (error + DigitalTwin) \<times> env"

subsection \<open>Requests, users, responses\<close>

record RegisterRequest =
  req_FirstName :: string
  req_LastName :: string
  req_Email :: string
  req_Password :: string
  req_Username :: string
  req_Mnemonic :: string

text \<open>
  The fields \<open>Register\<close> fills in, the identifier the \<open>BeforeCreate\<close> hook assigns
  (empty until then) and the soft-delete mark that every query filters on. The
  creation and update timestamps are left out.
\<close>

record User =
  user_ID :: string
  user_Email :: string
  user_Username :: string
  user_Password :: string
  user_FirstName :: string
  user_LastName :: string
  user_WalletAddress :: string
  user_TwinID :: "int option"
  user_PublicKey :: string
  user_Network :: string
  user_HasWallet :: bool
  user_IsActive :: bool
  user_EmailVerified :: bool
  user_Deleted :: bool

record UserProfile =
  profile_ID :: string
  profile_Email :: string
  profile_Username :: string
  profile_FirstName :: string
  profile_LastName :: string
  profile_WalletAddress :: string
  profile_TwinID :: "int option"
  profile_Network :: string
  profile_HasWallet :: bool
  profile_EmailVerified :: bool
  profile_IsActive :: bool

record ResponseWalletInfo =
  rw_Address :: string
  rw_Network :: string
  rw_HasTwin :: bool
  rw_TwinID :: "int option"

record AuthResponse =
  resp_Success :: bool
  resp_Token :: string
  resp_RefreshToken :: string
  resp_User :: UserProfile
  resp_WalletInfo :: ResponseWalletInfo
  resp_ExpiresAt :: int
  resp_Message :: string

record JWTClaims =
  claim_user_id :: string
  claim_email :: string
  claim_wallet_address :: string
  claim_exp :: int
  claim_iat :: int

text \<open>
  Third-party packages of the service, again parameters: bcrypt (salted from the
  entropy source), the JWT signature and the UUID generator of the \<open>BeforeCreate\<close>
  hook.
\<close>

record authlib =
  bcrypt_GenerateFromPassword :: "string \<Rightarrow> nat \<Rightarrow> env \<Rightarrow> (error + string) \<times> env"
  jwt_SignedString :: "JWTClaims \<Rightarrow> string \<Rightarrow> error + string"
  uuid_New :: "env \<Rightarrow> string \<times> env"

text \<open>The service itself; its database handle is the state passed alongside.\<close>

record AuthService =
  tfgridAdapter :: adapter
  jwtSecret :: string
  jwtExpiry :: int

subsection \<open>The database behind gorm\<close>

text \<open>
  The table of users, the queries issued so far, and the failures the database is
  going to answer with: the head of \<open>faults\<close> decides the next call (\<open>Some msg\<close>
  makes it fail with that message, \<open>None\<close> or an empty list lets it through).
\<close>

datatype db_call = CountEmail string | CountUsername string | CountWallet string | Create User

record db =
  rows :: "User list"
  faults :: "string option list"
  calls :: "db_call list"

definition db_begin :: "db_call \<Rightarrow> db \<Rightarrow> string option \<times> db" where
  "db_begin c d =
     (case faults d of
        [] \<Rightarrow> (None, d\<lparr>calls := calls d @ [c]\<rparr>)
      | f # fs \<Rightarrow> (f, d\<lparr>faults := fs, calls := calls d @ [c]\<rparr>))"

text \<open>\<open>db.Model(&User{}).Where("<column> = ? AND deleted_at IS NULL", v).Count(&count)\<close>.\<close>

definition db_Count :: "(User \<Rightarrow> bool) \<Rightarrow> db_call \<Rightarrow> db \<Rightarrow> (error + nat) \<times> db" where
  "db_Count matches c d =
     (case db_begin c d of
        (Some msg, d1) \<Rightarrow> (Inl (Err msg), d1)
      | (None, d1) \<Rightarrow>
          (Inr (length (filter (\<lambda>u. matches u \<and> \<not> user_Deleted u) (rows d1))), d1))"

text \<open>
  \<open>db.Create(user)\<close>: the hook gives the user an identifier when it has none; the
  unique indexes on the email and username columns cover deleted rows too; the row
  is appended when nothing fails. The user comes back as the hook left it.
\<close>

definition db_Create :: "authlib \<Rightarrow> User \<Rightarrow> env \<Rightarrow> db \<Rightarrow> error option \<times> User \<times> env \<times> db" where
  "db_Create A u e d =
     (case (if user_ID u = [] then (case uuid_New A e of (i, e1) \<Rightarrow> (u\<lparr>user_ID := i\<rparr>, e1))
            else (u, e)) of
        (u1, e1) \<Rightarrow>
          (case db_begin (Create u1) d of
             (Some msg, d1) \<Rightarrow> (Some (Err msg), u1, e1, d1)
           | (None, d1) \<Rightarrow>
               (if list_ex (\<lambda>v. user_Email v = user_Email u1 \<or> user_Username v = user_Username u1)
                     (rows d1)
                then (Some (Err ''UNIQUE constraint failed''), u1, e1, d1)
                else (None, u1, e1, d1\<lparr>rows := rows d1 @ [u1]\<rparr>))))"

subsection \<open>Helper functions of the service\<close>

definition isAlpha :: "char \<Rightarrow> bool" where
  "isAlpha c = (let n = (of_char c :: nat) in (97 \<le> n \<and> n \<le> 122) \<or> (65 \<le> n \<and> n \<le> 90))"

definition isDigit :: "char \<Rightarrow> bool" where
  "isDigit c = (let n = (of_char c :: nat) in 48 \<le> n \<and> n \<le> 57)"

text \<open>\<open>^[a-zA-Z]+$\<close> and \<open>^[a-zA-Z0-9]+$\<close>.\<close>

definition nameRegex :: "string \<Rightarrow> bool" where
  "nameRegex s = (s \<noteq> [] \<and> list_all isAlpha s)"

definition usernameRegex :: "string \<Rightarrow> bool" where
  "usernameRegex s = (s \<noteq> [] \<and> list_all (\<lambda>c. isAlpha c \<or> isDigit c) s)"

text \<open>
  \<open>^[a-zA-Z0-9._%+-]+@[a-zA-Z0-9.-]+\.[a-zA-Z]{2,}$\<close>. Neither class holds the
  at sign, so the local part ends at the first one; the last group holds no dot, so
  it is what follows the last dot.
\<close>

definition emailRegex :: "string \<Rightarrow> bool" where
  "emailRegex s =
     (let local = takeWhile (\<lambda>c. c \<noteq> CHR ''@'') s
      in (case drop (length local) s of
            [] \<Rightarrow> False
          | at # host \<Rightarrow>
              (let tld = rev (takeWhile (\<lambda>c. c \<noteq> CHR ''.'') (rev host));
                   dom = take (length host - length tld - 1) host
               in local \<noteq> []
                  \<and> list_all (\<lambda>c. isAlpha c \<or> isDigit c \<or> c \<in> set ''._%+-'') local
                  \<and> length tld < length host
                  \<and> dom \<noteq> []
                  \<and> list_all (\<lambda>c. isAlpha c \<or> isDigit c \<or> c \<in> set ''.-'') dom
                  \<and> 2 \<le> length tld
                  \<and> list_all isAlpha tld)))"

definition validateRegistrationInput :: "AuthService \<Rightarrow> RegisterRequest \<Rightarrow> error option" where
  "validateRegistrationInput S req =
     (if \<not> nameRegex (req_FirstName req)
        then Some (Err ''first name must contain only alphabetic characters'')
      else if \<not> nameRegex (req_LastName req)
        then Some (Err ''last name must contain only alphabetic characters'')
      else if length (req_FirstName req) < 2 \<or> 32 < length (req_FirstName req)
        then Some (Err ''first name must be between 2 and 32 characters'')
      else if length (req_LastName req) < 2 \<or> 32 < length (req_LastName req)
        then Some (Err ''last name must be between 2 and 32 characters'')
      else if \<not> emailRegex (req_Email req)
        then Some (Err ''invalid email format'')
      else if length (req_Password req) < 8
        then Some (Err ''password must be at least 8 characters long'')
      else if \<not> usernameRegex (req_Username req)
        then Some (Err ''username must contain only alphanumeric characters'')
      else if length (req_Username req) < 3 \<or> 50 < length (req_Username req)
        then Some (Err ''username must be between 3 and 50 characters'')
      else if req_Mnemonic req \<noteq> [] then
        (case ValidateMnemonic (tfgridAdapter S) (req_Mnemonic req) of
           Some err \<Rightarrow> Some (Wrap ''invalid mnemonic'' err)
         | None \<Rightarrow> None)
      else None)"

definition checkUserExists :: "string \<Rightarrow> string \<Rightarrow> db \<Rightarrow> error option \<times> db" where
  "checkUserExists email username d =
     (case db_Count (\<lambda>u. user_Email u = email) (CountEmail email) d of
        (Inl err, d1) \<Rightarrow> (Some (Wrap ''database error'' err), d1)
      | (Inr n, d1) \<Rightarrow>
          (if 0 < n then (Some (Err ''email already exists''), d1)
           else
             (case db_Count (\<lambda>u. user_Username u = username) (CountUsername username) d1 of
                (Inl err, d2) \<Rightarrow> (Some (Wrap ''database error'' err), d2)
              | (Inr n2, d2) \<Rightarrow>
                  (if 0 < n2 then (Some (Err ''username already exists''), d2)
                   else (None, d2)))))"

definition checkWalletExists :: "string \<Rightarrow> db \<Rightarrow> error option \<times> db" where
  "checkWalletExists walletAddress d =
     (case db_Count (\<lambda>u. user_WalletAddress u = walletAddress) (CountWallet walletAddress) d of
        (Inl err, d1) \<Rightarrow> (Some (Wrap ''database error'' err), d1)
      | (Inr n, d1) \<Rightarrow>
          (if 0 < n then (Some (Err ''wallet address already registered''), d1)
           else (None, d1)))"

text \<open>\<open>bcrypt.DefaultCost\<close> is 10.\<close>

definition hashPassword :: "authlib \<Rightarrow> string \<Rightarrow> env \<Rightarrow> (error + string) \<times> env" where
  "hashPassword A password e =
     (case bcrypt_GenerateFromPassword A password 10 e of
        (Inl err, e1) \<Rightarrow> (Inl err, e1)
      | (Inr hash, e1) \<Rightarrow> (Inr hash, e1))"

text \<open>\<open>generateJWT\<close>; the expiry of the service is counted in seconds here.\<close>

definition generateJWT :: "authlib \<Rightarrow> AuthService \<Rightarrow> User \<Rightarrow> env \<Rightarrow> error + string \<times> int" where
  "generateJWT A S user e =
     (let expiresAt = now_unix e + jwtExpiry S;
          claims = \<lparr>claim_user_id = user_ID user,
                    claim_email = user_Email user,
                    claim_wallet_address = user_WalletAddress user,
                    claim_exp = expiresAt,
                    claim_iat = now_unix e\<rparr>
      in (case jwt_SignedString A claims (jwtSecret S) of
            Inl err \<Rightarrow> Inl err
          | Inr tokenString \<Rightarrow> Inr (tokenString, expiresAt)))"

definition userToProfile :: "User \<Rightarrow> UserProfile" where
  "userToProfile user =
     \<lparr>profile_ID = user_ID user,
      profile_Email = user_Email user,
      profile_Username = user_Username user,
      profile_FirstName = user_FirstName user,
      profile_LastName = user_LastName user,
      profile_WalletAddress = user_WalletAddress user,
      profile_TwinID = user_TwinID user,
      profile_Network = user_Network user,
      profile_HasWallet = user_HasWallet user,
      profile_EmailVerified = user_EmailVerified user,
      profile_IsActive = user_IsActive user\<rparr>"

subsection \<open>Register\<close>

text \<open>
  The branch of \<open>Register\<close> on the presence of a mnemonic: the wallet and the value
  of the local \<open>hasWallet\<close>.
\<close>

definition Register_flow ::
  "AuthService \<Rightarrow> RegisterRequest \<Rightarrow> env \<Rightarrow> (error + WalletInfo \<times> bool) \<times> env" where
  "Register_flow S req e =
     (if req_Mnemonic req \<noteq> [] then
        (case adapter_DeriveWalletFromMnemonic (tfgridAdapter S) (req_Mnemonic req) e of
           (Inl err, e1) \<Rightarrow> (Inl (Wrap ''failed to derive wallet from mnemonic'' err), e1)
         | (Inr walletInfo, e1) \<Rightarrow> (Inr (walletInfo, True), e1))
      else
        (case adapter_GenerateWallet (tfgridAdapter S) e of
           (Inl err, e1) \<Rightarrow> (Inl (Wrap ''failed to generate wallet'' err), e1)
         | (Inr walletInfo, e1) \<Rightarrow> (Inr (walletInfo, False), e1)))"

definition twinMetadata :: "RegisterRequest \<Rightarrow> DigitalTwinMetadata" where
  "twinMetadata req =
     \<lparr>meta_Name = req_FirstName req @ '' '' @ req_LastName req,
      meta_Email = req_Email req,
      meta_Description = ''Anubis AI Platform User'',
      meta_Attributes = [''platform'' \<mapsto> ''anubis-ai'', ''version'' \<mapsto> ''1.0.0'']\<rparr>"

definition newUser :: "RegisterRequest \<Rightarrow> string \<Rightarrow> WalletInfo \<Rightarrow> DigitalTwin \<Rightarrow> bool \<Rightarrow> User" where
  "newUser req hashedPassword walletInfo digitalTwin hasWallet =
     \<lparr>user_ID = [],
      user_Email = req_Email req,
      user_Username = req_Username req,
      user_Password = hashedPassword,
      user_FirstName = req_FirstName req,
      user_LastName = req_LastName req,
      user_WalletAddress = Address walletInfo,
      user_TwinID = Some (ID digitalTwin),
      user_PublicKey = PublicKey walletInfo,
      user_Network = Network walletInfo,
      user_HasWallet = hasWallet,
      user_IsActive = True,
      user_EmailVerified = False,
      user_Deleted = False\<rparr>"

definition Register ::
  "authlib \<Rightarrow> AuthService \<Rightarrow> RegisterRequest \<Rightarrow> env \<Rightarrow> db \<Rightarrow> (error + AuthResponse) \<times> env \<times> db" where
  "Register A S req e d =
     (case validateRegistrationInput S req of
        Some err \<Rightarrow> (Inl (Wrap ''validation failed'' err), e, d)
      | None \<Rightarrow>
     (case checkUserExists (req_Email req) (req_Username req) d of
        (Some err, d1) \<Rightarrow> (Inl err, e, d1)
      | (None, d1) \<Rightarrow>
     (case hashPassword A (req_Password req) e of
        (Inl err, e1) \<Rightarrow> (Inl (Wrap ''failed to hash password'' err), e1, d1)
      | (Inr hashedPassword, e1) \<Rightarrow>
     (case Register_flow S req e1 of
        (Inl err, e2) \<Rightarrow> (Inl err, e2, d1)
      | (Inr (walletInfo, hasWallet), e2) \<Rightarrow>
     (case checkWalletExists (Address walletInfo) d1 of
        (Some err, d2) \<Rightarrow> (Inl err, e2, d2)
      | (None, d2) \<Rightarrow>
     (case adapter_CreateDigitalTwin (tfgridAdapter S) (Address walletInfo) (twinMetadata req) e2 of
        (Inl err, e3) \<Rightarrow> (Inl (Wrap ''failed to create digital twin'' err), e3, d2)
      | (Inr digitalTwin, e3) \<Rightarrow>
     (case db_Create A (newUser req hashedPassword walletInfo digitalTwin hasWallet) e3 d2 of
        (Some err, user, e4, d3) \<Rightarrow> (Inl (Wrap ''failed to create user'' err), e4, d3)
      | (None, user, e4, d3) \<Rightarrow>
     (case generateJWT A S user e4 of
        Inl err \<Rightarrow> (Inl (Wrap ''failed to generate token'' err), e4, d3)
      | Inr (token, expiresAt) \<Rightarrow>
          (Inr \<lparr>resp_Success = True,
                resp_Token = token,
                resp_RefreshToken = [],
                resp_User = userToProfile user,
                resp_WalletInfo = \<lparr>rw_Address = Address walletInfo,
                                    rw_Network = Network walletInfo,
                                    rw_HasTwin = True,
                                    rw_TwinID = Some (ID digitalTwin)\<rparr>,
                resp_ExpiresAt = expiresAt,
                resp_Message = ''Registration successful. Welcome to Anubis AI!''\<rparr>,
           e4, d3)))))))))"

section \<open>Predicates in which the properties are stated\<close>

text \<open>
  Two successive calls of a derivation with the same mnemonic both return a wallet,
  and the two wallets agree in address and public key.
\<close>

definition derives_alike ::
  "(string \<Rightarrow> env \<Rightarrow> (error + WalletInfo) \<times> env) \<Rightarrow> string \<Rightarrow> env \<Rightarrow> bool" where
  "derives_alike derive m e =
     (case derive m e of
        (Inl err, e1) \<Rightarrow> False
      | (Inr w1, e1) \<Rightarrow>
          (case derive m e1 of
             (Inl err, e2) \<Rightarrow> False
           | (Inr w2, e2) \<Rightarrow> Address w1 = Address w2 \<and> PublicKey w1 = PublicKey w2))"


text \<open>The \<open>Create\<close> calls among the calls a database has received.\<close>

fun is_Create :: "db_call \<Rightarrow> bool" where
  "is_Create (Create u) = True"
| "is_Create c = False"

definition creates :: "db \<Rightarrow> db_call list" where
  "creates d = filter is_Create (calls d)"



section \<open>Concrete instances\<close>

text \<open>
  Concrete environments, libraries, adapters and databases at which the theorems
  below are evaluated. They stand in for the third-party packages in examples only;
  every general theorem quantifies over all libraries and adapters.
\<close>

definition env0 :: env where
  "env0 = \<lparr>rand_src = (\<lambda>i. of_nat i), rand_pos = 0, now_unix = 1700000000\<rparr>"

definition phrase24 :: string where
  "phrase24 = ''zoo zoo zoo zoo zoo zoo zoo zoo zoo zoo zoo zoo zoo zoo zoo zoo zoo zoo zoo zoo zoo zoo zoo vote''"

text \<open>
  A library instance: phrases of 12 or 24 words are valid, the address shows the
  address format it was encoded with, and \<open>rand.Int\<close> reduces one byte of the source.
\<close>

definition stub_lib :: lib where
  "stub_lib =
     \<lparr>bip39_IsMnemonicValid = (\<lambda>m. word_count m = 12 \<or> word_count m = 24),
      bip39_NewEntropy = (\<lambda>bits e. case rand_Read (bits div 8) e of (bs, e1) \<Rightarrow> (Inr bs, e1)),
      bip39_NewMnemonic =
        (\<lambda>entropy. if length entropy = 32 then Inr phrase24 else Inl (Err ''entropy length'')),
      signature_KeyringPairFromSecret =
        (\<lambda>m fmt. Inr \<lparr>kp_Address = (if fmt = 42 then ''5'' else ''X'') @ take 4 m,
                        kp_PublicKey = map (\<lambda>c. of_nat (of_char c)) (take 4 m)\<rparr>),
      rand_Int =
        (\<lambda>bound e. (Inr (uint (rand_src e (rand_pos e)) mod bound), e\<lparr>rand_pos := rand_pos e + 1\<rparr>))\<rparr>"

definition stub_authlib :: authlib where
  "stub_authlib =
     \<lparr>bcrypt_GenerateFromPassword = (\<lambda>pw cost e. (Inr (''$2a$10$'' @ pw), e)),
      jwt_SignedString = (\<lambda>claims secret. Inr ''header.claims.signature''),
      uuid_New = (\<lambda>e. (''00000000-0000-4000-8000-000000000001'', e))\<rparr>"

text \<open>
  An adapter with the interface the service expects, built on the real adapter for
  the test network; its twin registration succeeds or fails as the flag says.
\<close>

definition stub_adapter :: "bool \<Rightarrow> adapter" where
  "stub_adapter twin_ok =
     \<lparr>ValidateMnemonic =
        (\<lambda>m. if bip39_IsMnemonicValid stub_lib m then None else Some (Err ''invalid mnemonic phrase'')),
      adapter_DeriveWalletFromMnemonic =
        DeriveWalletFromMnemonic stub_lib (NewRealTFGridAdapter ''test''),
      adapter_GenerateWallet = GenerateWallet stub_lib (NewRealTFGridAdapter ''test''),
      adapter_CreateDigitalTwin =
        (\<lambda>addr meta e. if twin_ok then (Inr \<lparr>ID = 4711\<rparr>, e)
                       else (Inl (Err ''chain unavailable''), e))\<rparr>"

definition stub_service :: "bool \<Rightarrow> AuthService" where
  "stub_service twin_ok =
     \<lparr>tfgridAdapter = stub_adapter twin_ok, jwtSecret = ''secret'', jwtExpiry = 3600\<rparr>"

definition alice :: User where
  "alice =
     \<lparr>user_ID = ''00000000-0000-4000-8000-000000000000'',
      user_Email = ''alice@example.org'',
      user_Username = ''alice'',
      user_Password = ''$2a$10$hash'',
      user_FirstName = ''Alice'',
      user_LastName = ''Liddell'',
      user_WalletAddress = ''5alice'',
      user_TwinID = Some 17,
      user_PublicKey = ''00'',
      user_Network = ''test'',
      user_HasWallet = True,
      user_IsActive = True,
      user_EmailVerified = False,
      user_Deleted = False\<rparr>"

text \<open>The user that the requests below register, up to wallet address, key and flag.\<close>

definition bob :: "string \<Rightarrow> string \<Rightarrow> bool \<Rightarrow> User" where
  "bob addr pk hw =
     \<lparr>user_ID = ''00000000-0000-4000-8000-000000000001'',
      user_Email = ''bob@example.org'',
      user_Username = ''bob'',
      user_Password = ''$2a$10$correct horse'',
      user_FirstName = ''Bob'',
      user_LastName = ''Builder'',
      user_WalletAddress = addr,
      user_TwinID = Some 4711,
      user_PublicKey = pk,
      user_Network = ''test'',
      user_HasWallet = hw,
      user_IsActive = True,
      user_EmailVerified = False,
      user_Deleted = False\<rparr>"

definition db0 :: db where
  "db0 = \<lparr>rows = [alice], faults = [], calls = []\<rparr>"

definition request :: "string \<Rightarrow> string \<Rightarrow> string \<Rightarrow> RegisterRequest" where
  "request email username mnemonic =
     \<lparr>req_FirstName = ''Bob'',
      req_LastName = ''Builder'',
      req_Email = email,
      req_Password = ''correct horse'',
      req_Username = username,
      req_Mnemonic = mnemonic\<rparr>"

section \<open>Shared facts\<close>

lemma length_EncodeToString: "length (EncodeToString bs) = 2 * length bs"
  by (induction bs) (simp_all add: EncodeToString_def)

text \<open>
  Sixteen bytes encode to thirty-two characters, so the slice at 47 is out of range
  on every call of the mock's derivation, after the sixteen bytes have been drawn.
\<close>

lemma Mock_DeriveWalletFromMnemonic_result:
  "Mock_DeriveWalletFromMnemonic m mnemonic e =
     (Inl (Panic ''slice bounds out of range''), e\<lparr>rand_pos := rand_pos e + 16\<rparr>)"
  by (simp add: Mock_DeriveWalletFromMnemonic_def rand_Read_def slice_to_def
      length_EncodeToString)

lemma Int64_small: "- (2 ^ 63) \<le> x \<Longrightarrow> x < 2 ^ 63 \<Longrightarrow> Int64 x = x"
  by (simp add: Int64_def signed_of_int signed_take_bit_int_eq_self)

section \<open>The network table of the real adapter\<close>

text \<open>
  Claim C6. Constructing the real adapter never fails. A token other than
  \<open>main\<close>, \<open>test\<close>, \<open>qa\<close> and \<open>dev\<close> gives an adapter whose network is \<open>test\<close>
  and whose configuration, as \<open>GetNetworkInfo\<close> returns it, is the test network's;
  each of the four tokens keeps its name and installs its own endpoints.
\<close>

theorem NewRealTFGridAdapter_networks:
  "(nw \<notin> {''main'', ''test'', ''qa'', ''dev''} \<longrightarrow>
      network (NewRealTFGridAdapter nw) = ''test'' \<and>
      GetNetworkInfo (NewRealTFGridAdapter nw) =
        \<lparr>Name = ''test'', Substrate = ''wss://tfchain.test.grid.tf:443'',
         Relay = ''wss://relay.test.grid.tf:443'',
         GraphQL = ''https://graphql.test.grid.tf/graphql''\<rparr>) \<and>
   (nw \<in> {''main'', ''test'', ''qa'', ''dev''} \<longrightarrow>
      network (NewRealTFGridAdapter nw) = nw \<and>
      Name (GetNetworkInfo (NewRealTFGridAdapter nw)) = nw) \<and>
   GetNetworkInfo (NewRealTFGridAdapter ''main'') =
     \<lparr>Name = ''main'', Substrate = ''wss://tfchain.grid.tf:443'',
      Relay = ''wss://relay.grid.tf:443'', GraphQL = ''https://graphql.grid.tf/graphql''\<rparr> \<and>
   GetNetworkInfo (NewRealTFGridAdapter ''test'') =
     \<lparr>Name = ''test'', Substrate = ''wss://tfchain.test.grid.tf:443'',
      Relay = ''wss://relay.test.grid.tf:443'',
      GraphQL = ''https://graphql.test.grid.tf/graphql''\<rparr> \<and>
   GetNetworkInfo (NewRealTFGridAdapter ''qa'') =
     \<lparr>Name = ''qa'', Substrate = ''wss://tfchain.qa.grid.tf:443'',
      Relay = ''wss://relay.qa.grid.tf:443'',
      GraphQL = ''https://graphql.qa.grid.tf/graphql''\<rparr> \<and>
   GetNetworkInfo (NewRealTFGridAdapter ''dev'') =
     \<lparr>Name = ''dev'', Substrate = ''wss://tfchain.dev.grid.tf:443'',
      Relay = ''wss://relay.dev.grid.tf:443'',
      GraphQL = ''https://graphql.dev.grid.tf/graphql''\<rparr>"
  by (simp add: NewRealTFGridAdapter_def GetNetworkInfo_def)

theorem NewRealTFGridAdapter_networks_witness:
  "''prod'' \<notin> {''main'', ''test'', ''qa'', ''dev''} \<and>
   network (NewRealTFGridAdapter ''prod'') = ''test'' \<and>
   GetNetworkInfo (NewRealTFGridAdapter ''prod'') = GetNetworkInfo (NewRealTFGridAdapter ''test'') \<and>
   ''qa'' \<in> {''main'', ''test'', ''qa'', ''dev''} \<and>
   network (NewRealTFGridAdapter ''qa'') = ''qa''"
  using NewRealTFGridAdapter_networks [of "''prod''"] NewRealTFGridAdapter_networks [of "''qa''"]
  by simp

section \<open>Derivation on the mock adapter\<close>

text \<open>
  Claim C9 says that the mock's derivation returns, for every input, a wallet
  with a 48-character address. At the empty mnemonic on a mock for the test network
  the call draws its sixteen bytes and panics at the slice: no wallet and no error
  value come back.
\<close>

theorem Mock_DeriveWalletFromMnemonic_empty_panics:
  "Mock_DeriveWalletFromMnemonic (NewMockTFGridAdapter ''test'') [] env0 =
     (Inl (Panic ''slice bounds out of range''), env0\<lparr>rand_pos := 16\<rparr>)"
  by (simp add: Mock_DeriveWalletFromMnemonic_result env0_def)

section \<open>Derivation on the real adapter\<close>

text \<open>
  Claim C4. On the real adapter a mnemonic that fails \<open>bip39.IsMnemonicValid\<close> is
  answered with the error \<open>invalid mnemonic phrase\<close> and no wallet, and the
  environment is left as it was. The check comes before the key derivation: the
  answer is the same whatever \<open>KeyringPairFromSecret\<close> would have done.
\<close>

theorem DeriveWalletFromMnemonic_rejects_invalid:
  "\<not> bip39_IsMnemonicValid L mnemonic \<Longrightarrow>
   DeriveWalletFromMnemonic (L\<lparr>signature_KeyringPairFromSecret := k\<rparr>) r mnemonic e =
     (Inl (Err ''invalid mnemonic phrase''), e)"
  by (simp add: DeriveWalletFromMnemonic_def)

theorem DeriveWalletFromMnemonic_rejects_invalid_witness:
  "\<not> bip39_IsMnemonicValid stub_lib ''correct horse battery staple'' \<and>
   DeriveWalletFromMnemonic
     (stub_lib\<lparr>signature_KeyringPairFromSecret := (\<lambda>m fmt. Inl (Panic ''key derivation reached''))\<rparr>)
     (NewRealTFGridAdapter ''main'') ''correct horse battery staple'' env0 =
     (Inl (Err ''invalid mnemonic phrase''), env0)"
proof -
  have invalid: "\<not> bip39_IsMnemonicValid stub_lib ''correct horse battery staple''"
    by (simp add: stub_lib_def word_count_def)
  show ?thesis
    using invalid DeriveWalletFromMnemonic_rejects_invalid [OF invalid] by simp
qed

section \<open>Determinism of derivation\<close>

text \<open>
  Claim C1 asks of every adapter, the mock included, that two derivations from one
  mnemonic yield wallets with the same address and public key. On a mock for the
  test network, from the mock's own phrase, the two calls do not: neither yields a
  wallet, and the sixteen bytes the second call draws for its address are not the
  sixteen the first one drew.
\<close>

theorem Mock_derivation_counterexample:
  "\<not> derives_alike (Mock_DeriveWalletFromMnemonic (NewMockTFGridAdapter ''test'')) mock_mnemonic env0 \<and>
   fst (rand_Read 16 env0) \<noteq> fst (rand_Read 16 (snd (rand_Read 16 env0)))"
proof -
  have "fst (rand_Read 16 env0) \<noteq> fst (rand_Read 16 (snd (rand_Read 16 env0)))"
    by (simp add: rand_Read_def env0_def) (rule exI [of _ 0], simp)
  then show ?thesis
    by (simp add: derives_alike_def Mock_DeriveWalletFromMnemonic_result)
qed

text \<open>
  Claim C1, amended to the real adapter. The outcome of
  \<open>RealTFGridAdapter.DeriveWalletFromMnemonic\<close>, wallet or error, is the same in
  every state of the entropy source and the clock, and the call leaves that state
  untouched. When the mnemonic is valid and the library derives a key pair from it,
  two successive calls both yield a wallet, with the pair's address and the hex
  encoding of the pair's public key.
\<close>

theorem DeriveWalletFromMnemonic_deterministic:
  "fst (DeriveWalletFromMnemonic L r m e) = fst (DeriveWalletFromMnemonic L r m e') \<and>
   snd (DeriveWalletFromMnemonic L r m e) = e \<and>
   (bip39_IsMnemonicValid L m \<and> signature_KeyringPairFromSecret L m 42 = Inr kp \<longrightarrow>
      derives_alike (DeriveWalletFromMnemonic L r) m e \<and>
      fst (DeriveWalletFromMnemonic L r m e) =
        Inr \<lparr>Address = kp_Address kp, PublicKey = EncodeToString (kp_PublicKey kp),
             Mnemonic = m, Network = network r\<rparr>)"
  by (simp add: DeriveWalletFromMnemonic_def derives_alike_def split: sum.splits)

theorem DeriveWalletFromMnemonic_deterministic_witness:
  "bip39_IsMnemonicValid stub_lib mock_mnemonic \<and>
   signature_KeyringPairFromSecret stub_lib mock_mnemonic 42 =
     Inr \<lparr>kp_Address = ''5aban'', kp_PublicKey = [97, 98, 97, 110]\<rparr> \<and>
   derives_alike (DeriveWalletFromMnemonic stub_lib (NewRealTFGridAdapter ''main'')) mock_mnemonic env0 \<and>
   fst (DeriveWalletFromMnemonic stub_lib (NewRealTFGridAdapter ''main'') mock_mnemonic env0) =
     Inr \<lparr>Address = ''5aban'', PublicKey = ''6162616e'', Mnemonic = mock_mnemonic,
          Network = ''main''\<rparr>"
proof -
  have valid: "bip39_IsMnemonicValid stub_lib mock_mnemonic"
    by (simp add: stub_lib_def word_count_def mock_mnemonic_def)
  have pair: "signature_KeyringPairFromSecret stub_lib mock_mnemonic 42 =
      Inr \<lparr>kp_Address = ''5aban'', kp_PublicKey = [97, 98, 97, 110]\<rparr>"
    by (simp add: stub_lib_def mock_mnemonic_def)
  have hex: "EncodeToString [97, 98, 97, 110] = ''6162616e''"
    by (simp add: EncodeToString_def hextable_def)
  show ?thesis
    using valid pair hex
      DeriveWalletFromMnemonic_deterministic [of stub_lib "NewRealTFGridAdapter ''main''"
        mock_mnemonic env0 env0 "\<lparr>kp_Address = ''5aban'', kp_PublicKey = [97, 98, 97, 110]\<rparr>"]
    by (simp add: NewRealTFGridAdapter_def)
qed

section \<open>One mnemonic on two networks\<close>

text \<open>
  Claim C5 expects different address strings on adapters for different networks.
  With a library whose address encoding does depend on the address format, the
  adapters for \<open>main\<close> and for \<open>test\<close> derive the same address from one mnemonic:
  both pass the format 42.
\<close>

theorem same_address_on_two_networks_counterexample:
  "network (NewRealTFGridAdapter ''main'') \<noteq> network (NewRealTFGridAdapter ''test'') \<and>
   fst (DeriveWalletFromMnemonic stub_lib (NewRealTFGridAdapter ''main'') mock_mnemonic env0) =
     Inr \<lparr>Address = ''5aban'', PublicKey = ''6162616e'', Mnemonic = mock_mnemonic,
          Network = ''main''\<rparr> \<and>
   fst (DeriveWalletFromMnemonic stub_lib (NewRealTFGridAdapter ''test'') mock_mnemonic env0) =
     Inr \<lparr>Address = ''5aban'', PublicKey = ''6162616e'', Mnemonic = mock_mnemonic,
          Network = ''test''\<rparr>"
  by (simp add: DeriveWalletFromMnemonic_def stub_lib_def NewRealTFGridAdapter_def
      word_count_def mock_mnemonic_def EncodeToString_def hextable_def)

text \<open>
  Claim C5, amended. Two real adapters, whatever their networks, answer one
  mnemonic with the same outcome up to the \<open>Network\<close> field: the same error, or
  wallets with the same address, the same public key and the same mnemonic, each
  labelled with its adapter's network.
\<close>

theorem DeriveWalletFromMnemonic_across_networks:
  "fst (DeriveWalletFromMnemonic L r2 m e2) =
     (case fst (DeriveWalletFromMnemonic L r1 m e1) of
        Inl err \<Rightarrow> Inl err
      | Inr w \<Rightarrow> Inr (w\<lparr>Network := network r2\<rparr>))"
  by (simp add: DeriveWalletFromMnemonic_def split: sum.splits)

theorem DeriveWalletFromMnemonic_across_networks_witness:
  "fst (DeriveWalletFromMnemonic stub_lib (NewRealTFGridAdapter ''dev'') mock_mnemonic env0) =
     Inr \<lparr>Address = ''5aban'', PublicKey = ''6162616e'', Mnemonic = mock_mnemonic,
          Network = ''dev''\<rparr>"
proof -
  have main: "fst (DeriveWalletFromMnemonic stub_lib (NewRealTFGridAdapter ''main'') mock_mnemonic env0) =
     Inr \<lparr>Address = ''5aban'', PublicKey = ''6162616e'', Mnemonic = mock_mnemonic,
          Network = ''main''\<rparr>"
    by (simp add: DeriveWalletFromMnemonic_def stub_lib_def NewRealTFGridAdapter_def
      word_count_def mock_mnemonic_def EncodeToString_def hextable_def)
  show ?thesis
    using DeriveWalletFromMnemonic_across_networks [of stub_lib "NewRealTFGridAdapter ''dev''"
        mock_mnemonic env0 "NewRealTFGridAdapter ''main''" env0]
    by (simp add: main) (simp add: NewRealTFGridAdapter_def)
qed

section \<open>Twin identifiers\<close>

text \<open>
  Claim C3 requires twin identifiers that are unique and one twin for each address.
  Three successive calls on one adapter, the entropy source yielding 0, 1 and 2:
  the addresses \<open>5addrA\<close> and \<open>5addrB\<close> both receive the identifier 1 (the draw 0
  is replaced by 1), and \<open>5addrA\<close>, asked again, receives 2.
\<close>

theorem twin_ids_collide_counterexample:
  "fst (CreateDigitalTwin stub_lib (NewRealTFGridAdapter ''test'') ''5addrA'' env0) = Inr 1 \<and>
   fst (CreateDigitalTwin stub_lib (NewRealTFGridAdapter ''test'') ''5addrB''
          (snd (CreateDigitalTwin stub_lib (NewRealTFGridAdapter ''test'') ''5addrA'' env0))) = Inr 1 \<and>
   fst (CreateDigitalTwin stub_lib (NewRealTFGridAdapter ''test'') ''5addrA''
          (snd (CreateDigitalTwin stub_lib (NewRealTFGridAdapter ''test'') ''5addrB''
             (snd (CreateDigitalTwin stub_lib (NewRealTFGridAdapter ''test'') ''5addrA'' env0))))) = Inr 2"
  by (simp add: CreateDigitalTwin_def stub_lib_def env0_def Int64_def)

text \<open>
  Claim C3, amended. The identifier \<open>RealTFGridAdapter.CreateDigitalTwin\<close> returns
  is the draw of \<open>rand.Int\<close> below one million, with 0 replaced by 1, hence between
  1 and 999999; it depends on neither the wallet address nor the adapter, and no
  record is consulted. A failure of the draw is returned as the error
  \<open>failed to generate twin ID\<close>.
\<close>

theorem CreateDigitalTwin_random:
  "CreateDigitalTwin L r a e = CreateDigitalTwin L r' a' e \<and>
   (rand_Int L 1000000 e = (Inr t, e1) \<and> 0 \<le> t \<and> t < 1000000 \<longrightarrow>
      CreateDigitalTwin L r a e = (Inr (if t = 0 then 1 else t), e1) \<and>
      1 \<le> (if t = 0 then 1 else t) \<and> (if t = 0 then 1 else t) < 1000000) \<and>
   (rand_Int L 1000000 e = (Inl err, e1) \<longrightarrow>
      CreateDigitalTwin L r a e = (Inl (Wrap ''failed to generate twin ID'' err), e1))"
  by (simp add: CreateDigitalTwin_def Int64_small)

theorem CreateDigitalTwin_random_witness:
  "rand_Int stub_lib 1000000 (env0\<lparr>rand_pos := 200\<rparr>) = (Inr 200, env0\<lparr>rand_pos := 201\<rparr>) \<and>
   CreateDigitalTwin stub_lib (NewRealTFGridAdapter ''qa'') ''5addrA'' (env0\<lparr>rand_pos := 200\<rparr>) =
     (Inr 200, env0\<lparr>rand_pos := 201\<rparr>)"
proof -
  have draw: "rand_Int stub_lib 1000000 (env0\<lparr>rand_pos := 200\<rparr>) = (Inr 200, env0\<lparr>rand_pos := 201\<rparr>)"
    by (simp add: stub_lib_def env0_def)
  show ?thesis
    using draw CreateDigitalTwin_random [of stub_lib "NewRealTFGridAdapter ''qa''" "''5addrA''"
        "env0\<lparr>rand_pos := 200\<rparr>" "NewRealTFGridAdapter ''qa''" "''5addrA''" 200
        "env0\<lparr>rand_pos := 201\<rparr>"]
    by simp
qed

section \<open>Generated wallets\<close>




section \<open>What Register does to the database\<close>

text \<open>
  Counting queries leave the table alone and are never \<open>Create\<close> calls; a
  \<open>Create\<close> call appends its row or leaves the table as it was.
\<close>

lemma db_begin_effect:
  "db_begin c d = (f, d1) \<Longrightarrow> rows d1 = rows d \<and> calls d1 = calls d @ [c]"
  by (auto simp: db_begin_def split: list.splits)

lemma db_Count_effect:
  "db_Count matches c d = (r, d1) \<Longrightarrow> rows d1 = rows d \<and> calls d1 = calls d @ [c]"
  by (auto simp: db_Count_def split: prod.splits option.splits dest: db_begin_effect)

lemma checkUserExists_effect:
  "checkUserExists email username d = (r, d1) \<Longrightarrow> rows d1 = rows d \<and> creates d1 = creates d"
  by (auto simp: checkUserExists_def creates_def
      split: prod.splits sum.splits if_splits dest!: db_Count_effect)

lemma checkWalletExists_effect:
  "checkWalletExists walletAddress d = (r, d1) \<Longrightarrow> rows d1 = rows d \<and> creates d1 = creates d"
  by (auto simp: checkWalletExists_def creates_def
      split: prod.splits sum.splits if_splits dest!: db_Count_effect)

lemma db_Create_effect:
  assumes "db_Create A u e d = (r, u1, e1, d1)"
  shows "creates d1 = creates d @ [Create u1]"
    and "user_ID u = [] \<Longrightarrow> u1\<lparr>user_ID := []\<rparr> = u"
    and "r \<noteq> None \<Longrightarrow> rows d1 = rows d"
    and "r = None \<Longrightarrow> rows d1 = rows d @ [u1]"
  using assms
  by (auto simp: db_Create_def creates_def
      split: prod.splits option.splits if_splits dest!: db_begin_effect)

text \<open>
  Every run of \<open>Register\<close> ends in one of two ways. Either it returns an error
  before it reaches \<open>db.Create\<close>, the table and the \<open>Create\<close> calls being what they
  were; or the wallet step and the twin registration have both succeeded, one
  \<open>Create\<close> call was made with the user built from them, and the table either
  gained that user or, the call having failed, is unchanged.
\<close>

lemma Register_run:
  assumes "Register A S req e d = (res, e', d')"
  shows "(isl res \<and> rows d' = rows d \<and> creates d' = creates d) \<or>
         (\<exists>d1 hashedPassword e1 w hw e2 d2 tw e3 u.
            validateRegistrationInput S req = None \<and>
            checkUserExists (req_Email req) (req_Username req) d = (None, d1) \<and>
            hashPassword A (req_Password req) e = (Inr hashedPassword, e1) \<and>
            Register_flow S req e1 = (Inr (w, hw), e2) \<and>
            checkWalletExists (Address w) d1 = (None, d2) \<and>
            rows d2 = rows d \<and>
            creates d2 = creates d \<and>
            adapter_CreateDigitalTwin (tfgridAdapter S) (Address w) (twinMetadata req) e2 =
              (Inr tw, e3) \<and>
            u\<lparr>user_ID := []\<rparr> = newUser req hashedPassword w tw hw \<and>
            creates d' = creates d @ [Create u] \<and>
            (if rows d' = rows d then isl res else rows d' = rows d @ [u]) \<and>
            (\<forall>resp. res = Inr resp \<longrightarrow> rows d' = rows d @ [u] \<and> resp_User resp = userToProfile u))"
proof (cases "validateRegistrationInput S req")
  case (Some err)
  with assms show ?thesis by (auto simp: Register_def)
next
  case None
  obtain r1 d1 where cu: "checkUserExists (req_Email req) (req_Username req) d = (r1, d1)"
    by (cases "checkUserExists (req_Email req) (req_Username req) d")
  note d1 = checkUserExists_effect [OF cu]
  show ?thesis
  proof (cases r1)
    case (Some err)
    with assms None cu d1 show ?thesis by (auto simp: Register_def)
  next
    case r1: None
    obtain r2 e1 where hp: "hashPassword A (req_Password req) e = (r2, e1)"
      by (cases "hashPassword A (req_Password req) e")
    show ?thesis
    proof (cases r2)
      case (Inl err)
      with assms None cu r1 hp d1 show ?thesis by (auto simp: Register_def)
    next
      case (Inr hashedPassword)
      obtain r3 e2 where fl: "Register_flow S req e1 = (r3, e2)"
        by (cases "Register_flow S req e1")
      show ?thesis
      proof (cases r3)
        case (Inl err)
        with assms None cu r1 hp Inr fl d1 show ?thesis by (auto simp: Register_def)
      next
        case r3: (Inr wh)
        obtain w hw where wh: "wh = (w, hw)" by (cases wh)
        obtain r4 d2 where cw: "checkWalletExists (Address w) d1 = (r4, d2)"
          by (cases "checkWalletExists (Address w) d1")
        note d2 = checkWalletExists_effect [OF cw]
        show ?thesis
        proof (cases r4)
          case (Some err)
          with assms None cu r1 hp Inr fl r3 wh cw d1 d2 show ?thesis
            by (auto simp: Register_def)
        next
          case r4: None
          obtain r5 e3 where tw:
            "adapter_CreateDigitalTwin (tfgridAdapter S) (Address w) (twinMetadata req) e2 = (r5, e3)"
            by (cases "adapter_CreateDigitalTwin (tfgridAdapter S) (Address w) (twinMetadata req) e2")
          show ?thesis
          proof (cases r5)
            case (Inl err)
            with assms None cu r1 hp Inr fl r3 wh cw r4 tw d1 d2 show ?thesis
              by (auto simp: Register_def)
          next
            case r5: (Inr digitalTwin)
            obtain r6 u e4 d3 where cr:
              "db_Create A (newUser req hashedPassword w digitalTwin hw) e3 d2 = (r6, u, e4, d3)"
              by (cases "db_Create A (newUser req hashedPassword w digitalTwin hw) e3 d2")
            note d3 = db_Create_effect [OF cr]
            have uid: "u\<lparr>user_ID := []\<rparr> = newUser req hashedPassword w digitalTwin hw"
              by (rule d3(2)) (simp add: newUser_def)
            have step: "Register A S req e d =
                (case r6 of
                   Some err \<Rightarrow> (Inl (Wrap ''failed to create user'' err), e4, d3)
                 | None \<Rightarrow>
                    (case generateJWT A S u e4 of
                       Inl err \<Rightarrow> (Inl (Wrap ''failed to generate token'' err), e4, d3)
                     | Inr (token, expiresAt) \<Rightarrow>
                         (Inr \<lparr>resp_Success = True,
                               resp_Token = token,
                resp_RefreshToken = [],
                               resp_User = userToProfile u,
                               resp_WalletInfo = \<lparr>rw_Address = Address w,
                                                   rw_Network = Network w,
                                                   rw_HasTwin = True,
                                                   rw_TwinID = Some (ID digitalTwin)\<rparr>,
                               resp_ExpiresAt = expiresAt,
                               resp_Message = ''Registration successful. Welcome to Anubis AI!''\<rparr>,
                          e4, d3)))"
              using None cu r1 hp Inr fl r3 wh cw r4 tw r5 cr
              by (simp add: Register_def split: option.splits)
            have right: "\<exists>d1 hashedPassword e1 w hw e2 d2 tw e3 u.
            validateRegistrationInput S req = None \<and>
            checkUserExists (req_Email req) (req_Username req) d = (None, d1) \<and>
            hashPassword A (req_Password req) e = (Inr hashedPassword, e1) \<and>
            Register_flow S req e1 = (Inr (w, hw), e2) \<and>
            checkWalletExists (Address w) d1 = (None, d2) \<and>
            rows d2 = rows d \<and>
            creates d2 = creates d \<and>
            adapter_CreateDigitalTwin (tfgridAdapter S) (Address w) (twinMetadata req) e2 =
              (Inr tw, e3) \<and>
            u\<lparr>user_ID := []\<rparr> = newUser req hashedPassword w tw hw \<and>
            creates d' = creates d @ [Create u] \<and>
            (if rows d' = rows d then isl res else rows d' = rows d @ [u]) \<and>
            (\<forall>resp. res = Inr resp \<longrightarrow> rows d' = rows d @ [u] \<and> resp_User resp = userToProfile u)"
            proof (intro exI conjI)
              show "validateRegistrationInput S req = None"
                by (rule None)
              show "checkUserExists (req_Email req) (req_Username req) d = (None, d1)"
                using cu r1 by simp
              show "hashPassword A (req_Password req) e = (Inr hashedPassword, e1)"
                using hp Inr by simp
              show "Register_flow S req e1 = (Inr (w, hw), e2)"
                using fl r3 wh by simp
              show "checkWalletExists (Address w) d1 = (None, d2)"
                using cw r4 by simp
              show "rows d2 = rows d"
                using d2 d1 by simp
              show "creates d2 = creates d"
                using d2 d1 by simp
              show "adapter_CreateDigitalTwin (tfgridAdapter S) (Address w) (twinMetadata req) e2 =
                  (Inr digitalTwin, e3)"
                using tw r5 by simp
              show "u\<lparr>user_ID := []\<rparr> = newUser req hashedPassword w digitalTwin hw"
                by (rule uid)
              have d': "d' = d3" using assms step by (auto split: option.splits sum.splits)
              show "creates d' = creates d @ [Create u]"
                using d' d3(1) d2 d1 by simp
              show "if rows d' = rows d then isl res else rows d' = rows d @ [u]"
                using assms step d' d3(3,4) d2 d1
                by (cases r6) (auto split: sum.splits)
              show "\<forall>resp. res = Inr resp \<longrightarrow> rows d' = rows d @ [u] \<and> resp_User resp = userToProfile u"
                using assms step d' d3(3,4) d2 d1
                by (cases r6) (auto split: sum.splits)
            qed
            then show ?thesis ..
          qed
        qed
      qed
    qed
  qed
qed


text \<open>
  The run in which the twin registration that \<open>Register\<close> calls returns an error:
  the steps before it have succeeded, and \<open>Register\<close> returns that error, wrapped,
  with the environment the call left and the database the last query left.
\<close>

lemma Register_twin_error:
  assumes "validateRegistrationInput S req = None"
    and "checkUserExists (req_Email req) (req_Username req) d = (None, d1)"
    and "hashPassword A (req_Password req) e = (Inr hashedPassword, e1)"
    and "Register_flow S req e1 = (Inr (w, hw), e2)"
    and "checkWalletExists (Address w) d1 = (None, d2)"
    and "adapter_CreateDigitalTwin (tfgridAdapter S) (Address w) (twinMetadata req) e2 =
           (Inl err, e3)"
  shows "Register A S req e d = (Inl (Wrap ''failed to create digital twin'' err), e3, d2)"
    and "rows d2 = rows d"
    and "creates d2 = creates d"
  using assms checkUserExists_effect [OF assms(2)] checkWalletExists_effect [OF assms(5)]
  by (simp_all add: Register_def)





section \<open>Runs of Register at the concrete instances\<close>

lemma request_fields:
  "req_FirstName (request email username mnemonic) = ''Bob''"
  "req_LastName (request email username mnemonic) = ''Builder''"
  "req_Email (request email username mnemonic) = email"
  "req_Password (request email username mnemonic) = ''correct horse''"
  "req_Username (request email username mnemonic) = username"
  "req_Mnemonic (request email username mnemonic) = mnemonic"
  by (simp_all add: request_def)

lemma validate_request:
  "validateRegistrationInput (stub_service b) (request ''bob@example.org'' ''bob'' []) = None"
  "validateRegistrationInput (stub_service b) (request ''alice@example.org'' ''bob'' []) = None"
  "validateRegistrationInput (stub_service b) (request ''bob@example.org'' ''alice'' []) = None"
  "validateRegistrationInput (stub_service b) (request ''bob@example.org'' ''bob'' mock_mnemonic) = None"
  by (simp_all add: validateRegistrationInput_def request_fields nameRegex_def usernameRegex_def
      emailRegex_def isAlpha_def isDigit_def stub_service_def stub_adapter_def stub_lib_def
      word_count_def mock_mnemonic_def)

lemma stub_flow_mnemonic:
  "Register_flow (stub_service b) (request email username mock_mnemonic) e =
     (Inr (\<lparr>Address = ''5aban'', PublicKey = ''6162616e'', Mnemonic = mock_mnemonic,
            Network = ''test''\<rparr>, True), e)"
  by (simp add: Register_flow_def request_fields stub_service_def stub_adapter_def
      DeriveWalletFromMnemonic_def stub_lib_def word_count_def mock_mnemonic_def
      EncodeToString_def hextable_def NewRealTFGridAdapter_def)


lemma stub_twin:
  "adapter_CreateDigitalTwin (tfgridAdapter (stub_service b)) addr meta e =
     (if b then (Inr \<lparr>ID = 4711\<rparr>, e) else (Inl (Err ''chain unavailable''), e))"
  by (simp add: stub_service_def stub_adapter_def)

lemma stub_hash:
  "hashPassword stub_authlib pw e = (Inr (''$2a$10$'' @ pw), e)"
  by (simp add: hashPassword_def stub_authlib_def)

lemma stub_checks:
  "checkUserExists ''bob@example.org'' ''bob'' db0 =
     (None, db0\<lparr>calls := [CountEmail ''bob@example.org'', CountUsername ''bob'']\<rparr>)"
  "checkWalletExists addr (db0\<lparr>calls := cs\<rparr>) =
     (if addr = ''5alice'' then Some (Err ''wallet address already registered'') else None,
      db0\<lparr>calls := cs @ [CountWallet addr]\<rparr>)"
  by (simp_all add: checkUserExists_def checkWalletExists_def db_Count_def db_begin_def
      db0_def alice_def)

lemma stub_create:
  "db_Create stub_authlib
     (newUser (request ''bob@example.org'' ''bob'' rm) ''$2a$10$correct horse''
        \<lparr>Address = addr, PublicKey = pk, Mnemonic = mn, Network = ''test''\<rparr> \<lparr>ID = 4711\<rparr> hw)
     e (db0\<lparr>calls := cs\<rparr>) =
     (None, bob addr pk hw, e,
      db0\<lparr>rows := [alice, bob addr pk hw], calls := cs @ [Create (bob addr pk hw)]\<rparr>)"
  by (simp add: db_Create_def newUser_def request_fields stub_authlib_def db_begin_def db0_def
      alice_def bob_def)

lemma stub_jwt:
  "generateJWT stub_authlib (stub_service b) u env0 = Inr (''header.claims.signature'', 1700003600)"
  "generateJWT stub_authlib (stub_service b) u (env0\<lparr>rand_pos := n\<rparr>) =
     Inr (''header.claims.signature'', 1700003600)"
  by (simp_all add: generateJWT_def stub_authlib_def stub_service_def env0_def)

lemma run_existing_wallet:
  "snd (snd (Register stub_authlib (stub_service True)
       (request ''bob@example.org'' ''bob'' mock_mnemonic) env0 db0)) =
     db0\<lparr>rows := [alice, bob ''5aban'' ''6162616e'' True],
         calls := [CountEmail ''bob@example.org'', CountUsername ''bob'', CountWallet ''5aban'',
                   Create (bob ''5aban'' ''6162616e'' True)]\<rparr>"
  by (simp add: Register_def validate_request request_fields stub_checks stub_hash
      stub_flow_mnemonic stub_twin stub_create stub_jwt)


section \<open>No user without a twin\<close>

text \<open>
  Claim C2. Take any run of \<open>Register\<close>. If the steps before the twin
  registration succeed (validation, the email and username check, the password hash,
  the wallet step, the wallet address check) and the twin registration that
  \<open>Register\<close> then calls, for that wallet's address in the environment the wallet
  step left, returns an error, then \<open>Register\<close> returns that error as
  \<open>failed to create digital twin\<close>, no \<open>Create\<close> call has reached the database and
  the table of users is what it was. Conversely, if the table changed or a \<open>Create\<close>
  call was made, then those steps succeeded without a write, that very twin
  registration returned a twin, and exactly one \<open>Create\<close> call followed, carrying
  the wallet's address and the twin's identifier. A run without a \<open>Create\<close> call
  ends in an error with the table unchanged.
\<close>

theorem Register_no_user_without_twin:
  assumes "Register A S req e d = (res, e', d')"
  shows "(\<forall>d1 hashedPassword e1 w hw e2 d2 err e3.
            validateRegistrationInput S req = None \<and>
            checkUserExists (req_Email req) (req_Username req) d = (None, d1) \<and>
            hashPassword A (req_Password req) e = (Inr hashedPassword, e1) \<and>
            Register_flow S req e1 = (Inr (w, hw), e2) \<and>
            checkWalletExists (Address w) d1 = (None, d2) \<and>
            adapter_CreateDigitalTwin (tfgridAdapter S) (Address w) (twinMetadata req) e2 =
              (Inl err, e3) \<longrightarrow>
            res = Inl (Wrap ''failed to create digital twin'' err) \<and> e' = e3 \<and> d' = d2 \<and>
            rows d' = rows d \<and> creates d' = creates d) \<and>
         (rows d' \<noteq> rows d \<or> creates d' \<noteq> creates d \<longrightarrow>
            (\<exists>d1 hashedPassword e1 w hw e2 d2 tw e3 u.
               validateRegistrationInput S req = None \<and>
               checkUserExists (req_Email req) (req_Username req) d = (None, d1) \<and>
               hashPassword A (req_Password req) e = (Inr hashedPassword, e1) \<and>
               Register_flow S req e1 = (Inr (w, hw), e2) \<and>
               checkWalletExists (Address w) d1 = (None, d2) \<and>
               rows d2 = rows d \<and>
               creates d2 = creates d \<and>
               adapter_CreateDigitalTwin (tfgridAdapter S) (Address w) (twinMetadata req) e2 =
                 (Inr tw, e3) \<and>
               creates d' = creates d @ [Create u] \<and>
               user_WalletAddress u = Address w \<and>
               user_TwinID u = Some (ID tw))) \<and>
         (creates d' = creates d \<longrightarrow> isl res \<and> rows d' = rows d)"
proof (intro conjI allI impI)
  fix d1 hashedPassword e1 w hw e2 d2 err e3
  assume run: "validateRegistrationInput S req = None \<and>
      checkUserExists (req_Email req) (req_Username req) d = (None, d1) \<and>
      hashPassword A (req_Password req) e = (Inr hashedPassword, e1) \<and>
      Register_flow S req e1 = (Inr (w, hw), e2) \<and>
      checkWalletExists (Address w) d1 = (None, d2) \<and>
      adapter_CreateDigitalTwin (tfgridAdapter S) (Address w) (twinMetadata req) e2 =
        (Inl err, e3)"
  then have steps: "validateRegistrationInput S req = None"
    "checkUserExists (req_Email req) (req_Username req) d = (None, d1)"
    "hashPassword A (req_Password req) e = (Inr hashedPassword, e1)"
    "Register_flow S req e1 = (Inr (w, hw), e2)"
    "checkWalletExists (Address w) d1 = (None, d2)"
    "adapter_CreateDigitalTwin (tfgridAdapter S) (Address w) (twinMetadata req) e2 = (Inl err, e3)"
    by simp_all
  have ret: "Register A S req e d = (Inl (Wrap ''failed to create digital twin'' err), e3, d2)"
    by (rule Register_twin_error(1) [OF steps])
  have same: "rows d2 = rows d" "creates d2 = creates d"
    by (rule Register_twin_error(2) [OF steps], rule Register_twin_error(3) [OF steps])
  from ret assms have eqs: "res = Inl (Wrap ''failed to create digital twin'' err)" "e' = e3" "d' = d2"
    by simp_all
  show "res = Inl (Wrap ''failed to create digital twin'' err)" by (rule eqs(1))
  show "e' = e3" by (rule eqs(2))
  show "d' = d2" by (rule eqs(3))
  show "rows d' = rows d" using eqs(3) same(1) by simp
  show "creates d' = creates d" using eqs(3) same(2) by simp
next
  assume changed: "rows d' \<noteq> rows d \<or> creates d' \<noteq> creates d"
  from Register_run [OF assms] changed
  obtain d1 hashedPassword e1 w hw e2 d2 tw e3 u where
    run: "validateRegistrationInput S req = None"
      "checkUserExists (req_Email req) (req_Username req) d = (None, d1)"
      "hashPassword A (req_Password req) e = (Inr hashedPassword, e1)"
      "Register_flow S req e1 = (Inr (w, hw), e2)"
      "checkWalletExists (Address w) d1 = (None, d2)"
      "rows d2 = rows d"
      "creates d2 = creates d"
      "adapter_CreateDigitalTwin (tfgridAdapter S) (Address w) (twinMetadata req) e2 = (Inr tw, e3)"
    and u: "u\<lparr>user_ID := []\<rparr> = newUser req hashedPassword w tw hw"
    and cr: "creates d' = creates d @ [Create u]"
    by blast
  from u have "user_WalletAddress (u\<lparr>user_ID := []\<rparr>) = Address w"
    and "user_TwinID (u\<lparr>user_ID := []\<rparr>) = Some (ID tw)"
    by (simp_all add: newUser_def)
  then have fields: "user_WalletAddress u = Address w" "user_TwinID u = Some (ID tw)"
    by simp_all
  show "\<exists>d1 hashedPassword e1 w hw e2 d2 tw e3 u.
      validateRegistrationInput S req = None \<and>
      checkUserExists (req_Email req) (req_Username req) d = (None, d1) \<and>
      hashPassword A (req_Password req) e = (Inr hashedPassword, e1) \<and>
      Register_flow S req e1 = (Inr (w, hw), e2) \<and>
      checkWalletExists (Address w) d1 = (None, d2) \<and>
      rows d2 = rows d \<and>
      creates d2 = creates d \<and>
      adapter_CreateDigitalTwin (tfgridAdapter S) (Address w) (twinMetadata req) e2 =
        (Inr tw, e3) \<and>
      creates d' = creates d @ [Create u] \<and>
      user_WalletAddress u = Address w \<and>
      user_TwinID u = Some (ID tw)"
  proof (intro exI conjI)
    show "validateRegistrationInput S req = None" by (rule run(1))
    show "checkUserExists (req_Email req) (req_Username req) d = (None, d1)" by (rule run(2))
    show "hashPassword A (req_Password req) e = (Inr hashedPassword, e1)" by (rule run(3))
    show "Register_flow S req e1 = (Inr (w, hw), e2)" by (rule run(4))
    show "checkWalletExists (Address w) d1 = (None, d2)" by (rule run(5))
    show "rows d2 = rows d" by (rule run(6))
    show "creates d2 = creates d" by (rule run(7))
    show "adapter_CreateDigitalTwin (tfgridAdapter S) (Address w) (twinMetadata req) e2 =
        (Inr tw, e3)"
      by (rule run(8))
    show "creates d' = creates d @ [Create u]" by (rule cr)
    show "user_WalletAddress u = Address w" by (rule fields(1))
    show "user_TwinID u = Some (ID tw)" by (rule fields(2))
  qed
next
  assume same: "creates d' = creates d"
  with Register_run [OF assms] show "isl res" by auto
  from same Register_run [OF assms] show "rows d' = rows d" by auto
qed

theorem Register_no_user_without_twin_witness:
  "validateRegistrationInput (stub_service False)
       (request ''bob@example.org'' ''bob'' mock_mnemonic) = None \<and>
   checkUserExists ''bob@example.org'' ''bob'' db0 =
     (None, db0\<lparr>calls := [CountEmail ''bob@example.org'', CountUsername ''bob'']\<rparr>) \<and>
   hashPassword stub_authlib ''correct horse'' env0 = (Inr ''$2a$10$correct horse'', env0) \<and>
   Register_flow (stub_service False) (request ''bob@example.org'' ''bob'' mock_mnemonic) env0 =
     (Inr (\<lparr>Address = ''5aban'', PublicKey = ''6162616e'', Mnemonic = mock_mnemonic,
            Network = ''test''\<rparr>, True), env0) \<and>
   checkWalletExists ''5aban''
       (db0\<lparr>calls := [CountEmail ''bob@example.org'', CountUsername ''bob'']\<rparr>) =
     (None, db0\<lparr>calls := [CountEmail ''bob@example.org'', CountUsername ''bob'',
                             CountWallet ''5aban'']\<rparr>) \<and>
   adapter_CreateDigitalTwin (tfgridAdapter (stub_service False)) ''5aban''
       (twinMetadata (request ''bob@example.org'' ''bob'' mock_mnemonic)) env0 =
     (Inl (Err ''chain unavailable''), env0) \<and>
   Register stub_authlib (stub_service False)
       (request ''bob@example.org'' ''bob'' mock_mnemonic) env0 db0 =
     (Inl (Err ''failed to create digital twin: chain unavailable''), env0,
      db0\<lparr>calls := [CountEmail ''bob@example.org'', CountUsername ''bob'',
                      CountWallet ''5aban'']\<rparr>) \<and>
   rows (snd (snd (Register stub_authlib (stub_service False)
       (request ''bob@example.org'' ''bob'' mock_mnemonic) env0 db0))) = [alice] \<and>
   creates (snd (snd (Register stub_authlib (stub_service False)
       (request ''bob@example.org'' ''bob'' mock_mnemonic) env0 db0))) = [] \<and>
   rows (snd (snd (Register stub_authlib (stub_service True)
       (request ''bob@example.org'' ''bob'' mock_mnemonic) env0 db0))) \<noteq> rows db0 \<and>
   creates (snd (snd (Register stub_authlib (stub_service True)
       (request ''bob@example.org'' ''bob'' mock_mnemonic) env0 db0))) =
     [Create (bob ''5aban'' ''6162616e'' True)]"
proof -
  let ?req = "request ''bob@example.org'' ''bob'' mock_mnemonic"
  let ?R = "Register stub_authlib (stub_service False) ?req env0 db0"
  let ?Q = "Register stub_authlib (stub_service True) ?req env0 db0"
  let ?d1 = "db0\<lparr>calls := [CountEmail ''bob@example.org'', CountUsername ''bob'']\<rparr>"
  let ?d2 = "db0\<lparr>calls := [CountEmail ''bob@example.org'', CountUsername ''bob'',
                             CountWallet ''5aban'']\<rparr>"
  let ?w = "\<lparr>Address = ''5aban'', PublicKey = ''6162616e'', Mnemonic = mock_mnemonic,
            Network = ''test''\<rparr>"
  have v: "validateRegistrationInput (stub_service False) ?req = None"
    by (rule validate_request(4))
  have cu: "checkUserExists (req_Email ?req) (req_Username ?req) db0 = (None, ?d1)"
    by (simp add: request_fields stub_checks(1))
  have hp: "hashPassword stub_authlib (req_Password ?req) env0 = (Inr ''$2a$10$correct horse'', env0)"
    by (simp add: request_fields stub_hash)
  have fl: "Register_flow (stub_service False) ?req env0 = (Inr (?w, True), env0)"
    by (rule stub_flow_mnemonic)
  have cw: "checkWalletExists (Address ?w) ?d1 = (None, ?d2)"
    by (simp add: stub_checks(2))
  have tw: "adapter_CreateDigitalTwin (tfgridAdapter (stub_service False)) (Address ?w)
      (twinMetadata ?req) env0 = (Inl (Err ''chain unavailable''), env0)"
    by (simp add: stub_twin)
  have "?R = (fst ?R, fst (snd ?R), snd (snd ?R))"
    by simp
  note inst = Register_no_user_without_twin [OF this]
  from inst v cu hp fl cw tw
  have res: "fst ?R = Inl (Wrap ''failed to create digital twin'' (Err ''chain unavailable''))"
    and env: "fst (snd ?R) = env0"
    and dbs: "snd (snd ?R) = ?d2"
    and same: "rows (snd (snd ?R)) = rows db0" "creates (snd (snd ?R)) = creates db0"
    by blast+
  have run: "?R = (Inl (Err ''failed to create digital twin: chain unavailable''), env0, ?d2)"
    using res env dbs by (simp add: prod_eq_iff)
  have base: "rows db0 = [alice]" "creates db0 = []"
    by (simp_all add: db0_def creates_def)
  have ok: "rows (snd (snd ?Q)) \<noteq> rows db0"
    "creates (snd (snd ?Q)) = [Create (bob ''5aban'' ''6162616e'' True)]"
    using base by (simp_all add: run_existing_wallet creates_def)
  show ?thesis
    using v cu hp fl cw tw run same base ok by (simp add: request_fields)
qed

section \<open>The HasWallet flag\<close>



section \<open>Conflict errors\<close>




end
